theory Spec2Isabelle
  imports Complex_Main "HOL-Library.AList"
begin

section \<open>Python values, truthiness and exceptions\<close>

text \<open>
  The voice agent is written in Python. A Python \<open>str\<close> is modelled as an Isabelle
  \<open>string\<close> holding the code points of the text, so the model covers texts whose code
  points are below 256. A value read from JSON (or any other dynamically typed value)
  is a \<open>pyval\<close>; a \<open>dict\<close> with string keys is an association list read with
  \<open>map_of\<close>, so the first binding of a key is the one Python sees.

  A float is modelled by the exact rational number it denotes (or one of the three
  non-finite values), which is all that comparison and truthiness depend on.
\<close>

datatype pyfloat = Finite rat | NaN | PosInf | NegInf

datatype pyval =
    PNone
  | PBool bool
  | PInt int
  | PFloat pyfloat
  | PStr string
  | PList "pyval list"
  | PDict "(string \<times> pyval) list"

type_synonym pydict = "(string \<times> pyval) list"

datatype pyexn =
    ValueError string
  | TypeError
  | AttributeError
  | OverflowError
  | JSONDecodeError
  | TimeoutError
  | ClientError
  | APIError string

text \<open>Python's \<open>bool(v)\<close>, the test made by \<open>if v\<close>, \<open>not v\<close>, \<open>and\<close> and \<open>or\<close>.\<close>

fun truthy :: "pyval \<Rightarrow> bool" where
  "truthy PNone = False"
| "truthy (PBool b) = b"
| "truthy (PInt n) = (n \<noteq> 0)"
| "truthy (PFloat f) = (f \<noteq> Finite 0)"
| "truthy (PStr s) = (s \<noteq> [])"
| "truthy (PList xs) = (xs \<noteq> [])"
| "truthy (PDict kvs) = (kvs \<noteq> [])"

text \<open>Truthiness of an \<open>Optional[str]\<close>: neither \<open>None\<close> nor the empty string.\<close>

fun str_truthy :: "string option \<Rightarrow> bool" where
  "str_truthy None = False"
| "str_truthy (Some s) = (s \<noteq> [])"

text \<open>\<open>d.get(k)\<close> is \<open>None\<close> for a missing key; \<open>d[k] = v\<close> replaces or adds a binding.\<close>

definition dict_get :: "pydict \<Rightarrow> string \<Rightarrow> pyval" where
  "dict_get d k = (case map_of d k of None \<Rightarrow> PNone | Some v \<Rightarrow> v)"

definition dict_set :: "pydict \<Rightarrow> string \<Rightarrow> pyval \<Rightarrow> pydict" where
  "dict_set d k v = AList.update k v d"



text \<open>\<open>a or b\<close> yields \<open>a\<close> when it is truthy and \<open>b\<close> otherwise.\<close>

definition py_or :: "pyval \<Rightarrow> pyval \<Rightarrow> pyval" where
  "py_or a b = (if truthy a then a else b)"

text \<open>The value of an \<open>Optional[str]\<close> as a Python object.\<close>

fun opt_str_val :: "string option \<Rightarrow> pyval" where
  "opt_str_val None = PNone"
| "opt_str_val (Some s) = PStr s"

text \<open>\<open>v.get(k, default)\<close> on an arbitrary value: only a \<open>dict\<close> has the method.\<close>

fun py_get_method :: "pyval \<Rightarrow> string \<Rightarrow> pyval \<Rightarrow> pyexn + pyval" where
  "py_get_method (PDict kvs) k dflt =
     Inr (case map_of kvs k of None \<Rightarrow> dflt | Some v \<Rightarrow> v)"
| "py_get_method _ k dflt = Inl AttributeError"

text \<open>\<open>len(v)\<close>, and the items a \<open>for\<close> loop visits.\<close>

fun py_len :: "pyval \<Rightarrow> pyexn + nat" where
  "py_len (PList xs) = Inr (length xs)"
| "py_len (PStr s) = Inr (length s)"
| "py_len (PDict kvs) = Inr (length kvs)"
| "py_len _ = Inl TypeError"

fun py_iter :: "pyval \<Rightarrow> pyexn + pyval list" where
  "py_iter (PList xs) = Inr xs"
| "py_iter (PStr s) = Inr (map (\<lambda>c. PStr [c]) s)"
| "py_iter (PDict kvs) = Inr (map (\<lambda>kv. PStr (fst kv)) kvs)"
| "py_iter _ = Inl TypeError"

text \<open>\<open>sep.join(parts)\<close>: every part must be a \<open>str\<close>.\<close>

fun py_join :: "string \<Rightarrow> pyval list \<Rightarrow> pyexn + string" where
  "py_join sep [] = Inr []"
| "py_join sep [PStr s] = Inr s"
| "py_join sep (PStr s # p # ps) =
     (case py_join sep (p # ps) of Inl x \<Rightarrow> Inl x | Inr r \<Rightarrow> Inr (s @ sep @ r))"
| "py_join sep (_ # ps) = Inl TypeError"

text \<open>
  Comparison \<open>v >= t\<close> with a float \<open>t\<close>: exact on numbers (a \<open>bool\<close> counts as 0 or 1),
  always false on NaN, a \<open>TypeError\<close> on anything else.
\<close>

fun py_ge_float :: "pyval \<Rightarrow> rat \<Rightarrow> pyexn + bool" where
  "py_ge_float (PBool b) t = Inr (t \<le> (if b then 1 else 0))"
| "py_ge_float (PInt n) t = Inr (t \<le> of_int n)"
| "py_ge_float (PFloat (Finite q)) t = Inr (t \<le> q)"
| "py_ge_float (PFloat NaN) t = Inr False"
| "py_ge_float (PFloat PosInf) t = Inr True"
| "py_ge_float (PFloat NegInf) t = Inr False"
| "py_ge_float PNone t = Inl TypeError"
| "py_ge_float (PStr s) t = Inl TypeError"
| "py_ge_float (PList xs) t = Inl TypeError"
| "py_ge_float (PDict kvs) t = Inl TypeError"

text \<open>
  The parts of Python that the repository calls but does not define are parameters of
  the model, so every result holds whatever they compute: \<open>str(v)\<close> of a value that is
  not already a \<open>str\<close>, \<open>float(n)\<close> of an \<open>int\<close> (\<open>None\<close>: OverflowError),
  \<open>float(s)\<close> of a \<open>str\<close> (\<open>None\<close>: ValueError) and \<open>json.loads\<close>
  (\<open>None\<close>: the text is rejected).
\<close>

record builtins =
  py_repr :: "pyval \<Rightarrow> string"
  float_of_int :: "int \<Rightarrow> pyfloat option"
  float_of_str :: "string \<Rightarrow> pyfloat option"
  json_loads :: "string \<Rightarrow> pyval option"

definition py_str :: "builtins \<Rightarrow> pyval \<Rightarrow> string" where
  "py_str B v = (case v of PStr s \<Rightarrow> s | _ \<Rightarrow> py_repr B v)"

fun py_float :: "builtins \<Rightarrow> pyval \<Rightarrow> pyexn + pyfloat" where
  "py_float B (PFloat f) = Inr f"
| "py_float B (PBool b) = Inr (Finite (if b then 1 else 0))"
| "py_float B (PInt n) =
     (case float_of_int B n of None \<Rightarrow> Inl OverflowError | Some f \<Rightarrow> Inr f)"
| "py_float B (PStr s) =
     (case float_of_str B s of
        None \<Rightarrow> Inl (ValueError ''could not convert string to float'')
      | Some f \<Rightarrow> Inr f)"
| "py_float B PNone = Inl TypeError"
| "py_float B (PList xs) = Inl TypeError"
| "py_float B (PDict kvs) = Inl TypeError"


section \<open>Python string methods\<close>

text \<open>\<open>str.isspace\<close>, \<open>str.isdigit\<close> and \<open>str.lower\<close> on the code points below 256.\<close>

definition py_isspace :: "char \<Rightarrow> bool" where
  "py_isspace c \<longleftrightarrow>
     (of_char c :: nat) \<in> {9, 10, 11, 12, 13, 28, 29, 30, 31, 32, 133, 160}"

definition py_isdigit :: "char \<Rightarrow> bool" where
  "py_isdigit c \<longleftrightarrow>
     (let n = (of_char c :: nat) in (48 \<le> n \<and> n \<le> 57) \<or> n \<in> {178, 179, 185})"

definition py_lower_char :: "char \<Rightarrow> char" where
  "py_lower_char c =
     (let n = (of_char c :: nat)
      in if (65 \<le> n \<and> n \<le> 90) \<or> (192 \<le> n \<and> n \<le> 222 \<and> n \<noteq> 215)
         then char_of (n + 32) else c)"

definition py_lower :: "string \<Rightarrow> string" where
  "py_lower s = map py_lower_char s"

text \<open>\<open>s.strip()\<close> removes white space at both ends, \<open>s.strip(chars)\<close> the characters
  of \<open>chars\<close>.\<close>

definition strip_while :: "(char \<Rightarrow> bool) \<Rightarrow> string \<Rightarrow> string" where
  "strip_while p s = rev (dropWhile p (rev (dropWhile p s)))"

definition py_strip :: "string \<Rightarrow> string" where
  "py_strip s = strip_while py_isspace s"

definition py_strip_chars :: "string \<Rightarrow> string \<Rightarrow> string" where
  "py_strip_chars chars s = strip_while (\<lambda>c. c \<in> set chars) s"

definition py_startswith :: "string \<Rightarrow> string \<Rightarrow> bool" where
  "py_startswith s p \<longleftrightarrow> take (length p) s = p"

definition py_endswith :: "string \<Rightarrow> string \<Rightarrow> bool" where
  "py_endswith s p \<longleftrightarrow> length p \<le> length s \<and> drop (length s - length p) s = p"

text \<open>\<open>needle in hay\<close> on strings: \<open>needle\<close> occurs at some position of \<open>hay\<close>.\<close>

fun py_contains :: "string \<Rightarrow> string \<Rightarrow> bool" where
  "py_contains [] needle = (needle = [])"
| "py_contains (c # cs) needle =
     (take (length needle) (c # cs) = needle \<or> py_contains cs needle)"

text \<open>\<open>sep.join(parts)\<close> on a list of strings.\<close>

fun join_strs :: "string \<Rightarrow> string list \<Rightarrow> string" where
  "join_strs sep [] = []"
| "join_strs sep [s] = s"
| "join_strs sep (s # t # ts) = s @ sep @ join_strs sep (t # ts)"


section \<open>contact_extractor.py: the extracted record and the additive merge\<close>

record ExtractedContactInfo =
  email :: "string option"
  phone :: "string option"
  first_name :: "string option"
  last_name :: "string option"
  company_name :: "string option"
  confidence :: "pyfloat option"
  errors_detected :: pyval
  corrections_made :: pyval

text \<open>\<open>ExtractedContactInfo()\<close>: every field \<open>None\<close>, \<open>errors_detected or []\<close>,
  \<open>corrections_made or {}\<close>.\<close>

definition empty_extraction :: ExtractedContactInfo where
  "empty_extraction =
     \<lparr> email = None, phone = None, first_name = None, last_name = None,
       company_name = None, confidence = None,
       errors_detected = PList [], corrections_made = PDict [] \<rparr>"

definition has_contact_info :: "ExtractedContactInfo \<Rightarrow> bool" where
  "has_contact_info e \<longleftrightarrow>
     str_truthy (email e) \<or> str_truthy (phone e) \<or> str_truthy (first_name e)
     \<or> str_truthy (last_name e) \<or> str_truthy (company_name e)"

text \<open>
  One statement \<open>if extracted.f and not merged.get(k): merged[k] = extracted.f\<close>
  of \<open>merge_contact_info\<close>.
\<close>

definition merge_field :: "string \<Rightarrow> string option \<Rightarrow> pydict \<Rightarrow> pydict" where
  "merge_field k x merged =
     (case x of
        None \<Rightarrow> merged
      | Some s \<Rightarrow>
          if s \<noteq> [] \<and> \<not> truthy (dict_get merged k) then dict_set merged k (PStr s)
          else merged)"

definition merge_contact_info :: "pydict \<Rightarrow> ExtractedContactInfo \<Rightarrow> pydict" where
  "merge_contact_info existing extracted =
     (let merged = existing;
          merged = merge_field ''email'' (email extracted) merged;
          merged = merge_field ''phone'' (phone extracted) merged;
          merged = merge_field ''first_name'' (first_name extracted) merged;
          merged = merge_field ''last_name'' (last_name extracted) merged;
          merged = merge_field ''company_name'' (company_name extracted) merged
      in merged)"

text \<open>The five keys the merge may write, and the extracted value that goes under each.\<close>

definition contact_keys :: "string set" where
  "contact_keys = {''email'', ''phone'', ''first_name'', ''last_name'', ''company_name''}"

definition extracted_at :: "ExtractedContactInfo \<Rightarrow> string \<Rightarrow> string option" where
  "extracted_at e k =
     (if k = ''email'' then email e
      else if k = ''phone'' then phone e
      else if k = ''first_name'' then first_name e
      else if k = ''last_name'' then last_name e
      else if k = ''company_name'' then company_name e
      else None)"


text \<open>
  The same function on a store of objects, where the mutation is visible: a reference
  is an index into the store, \<open>existing.copy()\<close> allocates a new object holding the
  bindings of \<open>existing\<close>, and each assignment \<open>merged[k] = v\<close> updates the object
  that \<open>merged\<close> refers to. A reference held by a running program is always valid,
  so the store is only read at indices below its length.
\<close>

type_synonym store = "pydict list"

definition assign_field :: "nat \<Rightarrow> string \<Rightarrow> string option \<Rightarrow> store \<Rightarrow> store" where
  "assign_field merged k x st = st[merged := merge_field k x (st ! merged)]"

definition merge_contact_info_st ::
  "nat \<Rightarrow> ExtractedContactInfo \<Rightarrow> store \<Rightarrow> nat \<times> store" where
  "merge_contact_info_st existing extracted st =
     (let merged = length st;
          st = st @ [st ! existing];
          st = assign_field merged ''email'' (email extracted) st;
          st = assign_field merged ''phone'' (phone extracted) st;
          st = assign_field merged ''first_name'' (first_name extracted) st;
          st = assign_field merged ''last_name'' (last_name extracted) st;
          st = assign_field merged ''company_name'' (company_name extracted) st
      in (merged, st))"


section \<open>contact_extractor.py: validation of the model's answer\<close>

text \<open>
  The float literal \<open>0.7\<close> of the source denotes the double nearest to seven tenths;
  this is its exact value.
\<close>

definition name_confidence_threshold :: rat where
  "name_confidence_threshold = 3152519739159347 / 4503599627370496"

text \<open>
  The statements of \<open>extract_contact_info_llm\<close> after \<open>json.loads\<close>, in source
  order, on the parsed object \<open>result\<close>. \<open>result[k]\<close> is only read after
  \<open>result.get(k)\<close> was truthy, so both are the same lookup. The local variable
  \<open>confidence\<close> of the source is \<open>conf\<close> here.
\<close>

definition set_email :: "builtins \<Rightarrow> pydict \<Rightarrow> ExtractedContactInfo \<Rightarrow> ExtractedContactInfo" where
  "set_email B result extracted =
     (if truthy (dict_get result ''email'') \<and> dict_get result ''email'' \<noteq> PStr ''null''
         \<and> py_contains (py_str B (dict_get result ''email'')) ''@''
      then extracted\<lparr>email := Some (py_strip (py_lower (py_str B (dict_get result ''email''))))\<rparr>
      else extracted)"

definition set_phone :: "builtins \<Rightarrow> pydict \<Rightarrow> ExtractedContactInfo \<Rightarrow> ExtractedContactInfo" where
  "set_phone B result extracted =
     (if truthy (dict_get result ''phone'') \<and> dict_get result ''phone'' \<noteq> PStr ''null''
      then (let phone_digits = filter py_isdigit (py_str B (dict_get result ''phone''))
            in if 10 \<le> length phone_digits then extracted\<lparr>phone := Some phone_digits\<rparr>
               else extracted)
      else extracted)"

text \<open>\<open>result.get("confidence", 0.0)\<close>.\<close>

definition get_confidence :: "pydict \<Rightarrow> pyval" where
  "get_confidence result =
     (case map_of result ''confidence'' of None \<Rightarrow> PFloat (Finite 0) | Some v \<Rightarrow> v)"

text \<open>
  The test \<open>result.get(k) and result[k] != "null" and confidence >= 0.7\<close>; the
  comparison is evaluated, and can raise, only when the first two conjuncts hold.
\<close>

definition name_accepted :: "pydict \<Rightarrow> string \<Rightarrow> pyval \<Rightarrow> pyexn + bool" where
  "name_accepted result k conf =
     (if truthy (dict_get result k) \<and> dict_get result k \<noteq> PStr ''null''
      then py_ge_float conf name_confidence_threshold
      else Inr False)"

definition set_company_name ::
  "builtins \<Rightarrow> pydict \<Rightarrow> ExtractedContactInfo \<Rightarrow> ExtractedContactInfo" where
  "set_company_name B result extracted =
     (if truthy (dict_get result ''company_name'')
         \<and> dict_get result ''company_name'' \<noteq> PStr ''null''
      then extracted\<lparr>company_name := Some (py_strip (py_str B (dict_get result ''company_name'')))\<rparr>
      else extracted)"

definition set_confidence ::
  "builtins \<Rightarrow> pydict \<Rightarrow> ExtractedContactInfo \<Rightarrow> pyexn + ExtractedContactInfo" where
  "set_confidence B result extracted =
     (case map_of result ''confidence'' of
        None \<Rightarrow> Inr extracted
      | Some v \<Rightarrow>
          (case py_float B v of
             Inl x \<Rightarrow> Inl x
           | Inr f \<Rightarrow> Inr (extracted\<lparr>confidence := Some f\<rparr>)))"

definition set_errors_and_corrections ::
  "pydict \<Rightarrow> ExtractedContactInfo \<Rightarrow> ExtractedContactInfo" where
  "set_errors_and_corrections result extracted =
     (let extracted =
            (if truthy (dict_get result ''errors_detected'')
             then extracted\<lparr>errors_detected := dict_get result ''errors_detected''\<rparr>
             else extracted);
          extracted =
            (if truthy (dict_get result ''corrections_made'')
             then extracted\<lparr>corrections_made := dict_get result ''corrections_made''\<rparr>
             else extracted)
      in extracted)"

definition validate_result :: "builtins \<Rightarrow> pyval \<Rightarrow> pyexn + ExtractedContactInfo" where
  "validate_result B parsed =
     (case parsed of
        PDict result \<Rightarrow>
          (let extracted = empty_extraction;
               extracted = set_email B result extracted;
               extracted = set_phone B result extracted;
               conf = get_confidence result
           in case name_accepted result ''first_name'' conf of
                Inl x \<Rightarrow> Inl x
              | Inr first_ok \<Rightarrow>
                 (let extracted =
                        (if first_ok
                         then extracted\<lparr>first_name :=
                                Some (py_strip (py_str B (dict_get result ''first_name'')))\<rparr>
                         else extracted)
                  in case name_accepted result ''last_name'' conf of
                       Inl x \<Rightarrow> Inl x
                     | Inr last_ok \<Rightarrow>
                        (let extracted =
                               (if last_ok
                                then extracted\<lparr>last_name :=
                                       Some (py_strip (py_str B (dict_get result ''last_name'')))\<rparr>
                                else extracted);
                             extracted = set_company_name B result extracted
                         in case set_confidence B result extracted of
                              Inl x \<Rightarrow> Inl x
                            | Inr extracted \<Rightarrow>
                                Inr (set_errors_and_corrections result extracted))))
      | _ \<Rightarrow> Inl AttributeError)"

text \<open>
  \<open>extract_contact_info_llm\<close>. The completion endpoint is outside the repository: its
  answer to the prompt built from the message and the recent context is the argument
  \<open>completion\<close>, either an exception or the content of the first choice. Everything
  raised inside the \<open>try\<close> is logged and turned into an empty extraction.
\<close>

datatype completion = CompletionRaises pyexn | CompletionContent "string option"

definition extraction_body :: "builtins \<Rightarrow> completion \<Rightarrow> pyexn + ExtractedContactInfo" where
  "extraction_body B c =
     (case c of
        CompletionRaises x \<Rightarrow> Inl x
      | CompletionContent content \<Rightarrow>
          (let response_text =
                 (case content of
                    None \<Rightarrow> ''{}''
                  | Some s \<Rightarrow> if s \<noteq> [] then py_strip s else ''{}'')
           in case json_loads B response_text of
                None \<Rightarrow> Inl JSONDecodeError
              | Some parsed \<Rightarrow> validate_result B parsed))"

definition extract_contact_info_llm ::
  "builtins \<Rightarrow> string option \<Rightarrow> completion \<Rightarrow> ExtractedContactInfo" where
  "extract_contact_info_llm B openai_api_key c =
     (if \<not> str_truthy openai_api_key then empty_extraction
      else case extraction_body B c of
             Inl x \<Rightarrow> empty_extraction
           | Inr extracted \<Rightarrow> extracted)"

text \<open>What the function returns once the model's answer has been parsed to \<open>parsed\<close>.\<close>

definition validated :: "builtins \<Rightarrow> pyval \<Rightarrow> ExtractedContactInfo" where
  "validated B parsed =
     (case validate_result B parsed of Inl x \<Rightarrow> empty_extraction | Inr extracted \<Rightarrow> extracted)"

text \<open>The number an \<open>int\<close>, \<open>bool\<close> or finite \<open>float\<close> stands for.\<close>

fun number_value :: "pyval \<Rightarrow> rat option" where
  "number_value (PBool b) = Some (if b then 1 else 0)"
| "number_value (PInt n) = Some (of_int n)"
| "number_value (PFloat (Finite q)) = Some q"
| "number_value _ = None"


section \<open>Sample data\<close>

text \<open>Concrete inputs at which the theorems below are exercised.\<close>

definition sample_metadata :: pydict where
  "sample_metadata =
     [(''email'', PStr ''a@b.c''), (''phone'', PStr []), (''note'', PInt 7)]"

definition sample_extraction :: ExtractedContactInfo where
  "sample_extraction =
     empty_extraction\<lparr> email := Some ''x@y.z'', phone := Some ''15551234567'',
                        first_name := Some ''Ada'' \<rparr>"


section \<open>Properties of the additive merge\<close>

lemma map_of_merge_field:
  "map_of (merge_field k x m) k' =
     (if k' = k \<and> str_truthy x \<and> \<not> truthy (dict_get m k)
      then map_option PStr x else map_of m k')"
  by (cases x) (simp_all add: merge_field_def dict_set_def update_conv')

lemma dict_get_merge_field:
  "dict_get (merge_field k x m) k' =
     (if k' = k \<and> str_truthy x \<and> \<not> truthy (dict_get m k)
      then (case x of None \<Rightarrow> PNone | Some s \<Rightarrow> PStr s) else dict_get m k')"
  by (cases x) (simp_all add: dict_get_def map_of_merge_field)

lemma truthy_merge_field_mono:
  "truthy (dict_get m k') \<Longrightarrow> truthy (dict_get (merge_field k x m) k')"
  by (cases x) (auto simp: dict_get_merge_field)

lemma truthy_merge_field_same:
  "str_truthy x \<Longrightarrow> truthy (dict_get (merge_field k x m) k)"
  by (cases x) (auto simp: dict_get_merge_field)

lemma merge_field_noop:
  "(str_truthy x \<Longrightarrow> truthy (dict_get m k)) \<Longrightarrow> merge_field k x m = m"
  by (cases x) (auto simp: merge_field_def)

lemma merge_field_keeps_truthy:
  "map_of m k' = Some v \<Longrightarrow> truthy v \<Longrightarrow> map_of (merge_field k x m) k' = Some v"
  by (auto simp: map_of_merge_field dict_get_def)

lemma map_of_merge_contact_info:
  "map_of (merge_contact_info m e) k =
     (if k \<in> contact_keys \<and> str_truthy (extracted_at e k) \<and> \<not> truthy (dict_get m k)
      then map_option PStr (extracted_at e k) else map_of m k)"
  by (auto simp: merge_contact_info_def Let_def map_of_merge_field dict_get_merge_field
        contact_keys_def extracted_at_def)

lemma merge_contact_info_truthy_after:
  assumes "k \<in> contact_keys" "str_truthy (extracted_at e k)"
  shows "truthy (dict_get (merge_contact_info m e) k)"
  using assms
  by (cases "extracted_at e k")
     (auto simp: contact_keys_def extracted_at_def merge_contact_info_def Let_def
        dict_get_merge_field split: if_splits)

lemma merge_contact_info_fixpoint:
  assumes "\<And>k. k \<in> contact_keys \<Longrightarrow> str_truthy (extracted_at e k) \<Longrightarrow> truthy (dict_get M k)"
  shows "merge_contact_info M e = M"
proof -
  have a: "merge_field ''email'' (email e) M = M"
    using assms [of "''email''"]
    by (intro merge_field_noop) (simp add: contact_keys_def extracted_at_def)
  have b: "merge_field ''phone'' (phone e) M = M"
    using assms [of "''phone''"]
    by (intro merge_field_noop) (simp add: contact_keys_def extracted_at_def)
  have c: "merge_field ''first_name'' (first_name e) M = M"
    using assms [of "''first_name''"]
    by (intro merge_field_noop) (simp add: contact_keys_def extracted_at_def)
  have d: "merge_field ''last_name'' (last_name e) M = M"
    using assms [of "''last_name''"]
    by (intro merge_field_noop) (simp add: contact_keys_def extracted_at_def)
  have f: "merge_field ''company_name'' (company_name e) M = M"
    using assms [of "''company_name''"]
    by (intro merge_field_noop) (simp add: contact_keys_def extracted_at_def)
  show ?thesis by (simp add: merge_contact_info_def Let_def a b c d f)
qed

lemma sample_merge_values:
  "map_of (merge_contact_info sample_metadata sample_extraction) ''email'' = Some (PStr ''a@b.c'')"
  "map_of (merge_contact_info sample_metadata sample_extraction) ''phone''
     = Some (PStr ''15551234567'')"
  "map_of (merge_contact_info sample_metadata sample_extraction) ''note'' = Some (PInt 7)"
  by (simp_all add: map_of_merge_contact_info sample_metadata_def sample_extraction_def
        empty_extraction_def contact_keys_def extracted_at_def dict_get_def)

text \<open>
  Claim C3. For every metadata mapping \<open>m\<close> and extraction \<open>e\<close>: a field of \<open>m\<close> whose
  value is non-empty (truthy) has the same value in \<open>merge_contact_info m e\<close>; a key
  whose binding differs between the result and \<open>m\<close> is one of the five contact keys,
  was absent or empty in \<open>m\<close>, and now holds the non-empty extracted value; and merging
  the same extraction a second time changes nothing.
\<close>

theorem merge_contact_info_additive_idempotent:
  "(\<forall>k v. map_of m k = Some v \<and> truthy v \<longrightarrow> map_of (merge_contact_info m e) k = Some v)
   \<and> (\<forall>k. map_of (merge_contact_info m e) k \<noteq> map_of m k \<longrightarrow>
          k \<in> contact_keys \<and> \<not> truthy (dict_get m k)
          \<and> (\<exists>s. s \<noteq> [] \<and> extracted_at e k = Some s
                 \<and> map_of (merge_contact_info m e) k = Some (PStr s)))
   \<and> merge_contact_info (merge_contact_info m e) e = merge_contact_info m e"
proof (intro conjI allI impI)
  fix k v assume "map_of m k = Some v \<and> truthy v"
  then show "map_of (merge_contact_info m e) k = Some v"
    by (simp add: map_of_merge_contact_info dict_get_def)
next
  fix k assume ne: "map_of (merge_contact_info m e) k \<noteq> map_of m k"
  then have c: "k \<in> contact_keys" "str_truthy (extracted_at e k)" "\<not> truthy (dict_get m k)"
    by (auto simp: map_of_merge_contact_info split: if_splits)
  show "k \<in> contact_keys" by (rule c)
  show "\<not> truthy (dict_get m k)" by (rule c)
  from c(2) obtain s where s: "extracted_at e k = Some s" "s \<noteq> []"
    by (cases "extracted_at e k") auto
  with c show "\<exists>s. s \<noteq> [] \<and> extracted_at e k = Some s
                 \<and> map_of (merge_contact_info m e) k = Some (PStr s)"
    by (simp add: map_of_merge_contact_info)
next
  show "merge_contact_info (merge_contact_info m e) e = merge_contact_info m e"
    by (rule merge_contact_info_fixpoint) (rule merge_contact_info_truthy_after)
qed

theorem merge_contact_info_additive_idempotent_witness:
  "map_of sample_metadata ''email'' = Some (PStr ''a@b.c'') \<and> truthy (PStr ''a@b.c'')
   \<and> map_of (merge_contact_info sample_metadata sample_extraction) ''email''
       = Some (PStr ''a@b.c'')
   \<and> map_of (merge_contact_info sample_metadata sample_extraction) ''phone''
       \<noteq> map_of sample_metadata ''phone''
   \<and> ''phone'' \<in> contact_keys \<and> \<not> truthy (dict_get sample_metadata ''phone'')
   \<and> merge_contact_info (merge_contact_info sample_metadata sample_extraction) sample_extraction
       = merge_contact_info sample_metadata sample_extraction"
proof -
  note t = merge_contact_info_additive_idempotent [of sample_metadata sample_extraction]
  have old: "map_of sample_metadata ''email'' = Some (PStr ''a@b.c'') \<and> truthy (PStr ''a@b.c'')"
    by (simp add: sample_metadata_def)
  with t have kept:
    "map_of (merge_contact_info sample_metadata sample_extraction) ''email''
       = Some (PStr ''a@b.c'')"
    by blast
  have changed:
    "map_of (merge_contact_info sample_metadata sample_extraction) ''phone''
       \<noteq> map_of sample_metadata ''phone''"
    by (simp add: sample_merge_values) (simp add: sample_metadata_def)
  with t have filled: "''phone'' \<in> contact_keys \<and> \<not> truthy (dict_get sample_metadata ''phone'')"
    by blast
  from t old kept changed filled show ?thesis by blast
qed

end
